theory Spec2Isabelle
  imports Complex_Main
begin

section \<open>Strings and numbers of the host language\<close>

text \<open>
  The server is a TypeScript program.  A string of the program is a sequence of UTF-16 code
  units; a code unit is modelled as a natural number (below 65536), and nothing in
  \<open>index.ts\<close> computes with code units, so no wrap-around arises.  \<open>js\<close> gives the
  code units of a literal written in ASCII.
\<close>

type_synonym jsstring = "nat list"

definition cu :: "char \<Rightarrow> nat" where
  "cu c = of_char c"

definition js :: "string \<Rightarrow> jsstring" where
  "js s = map cu s"

text \<open>White space as the regular-expression class \<open>\s\<close> and \<open>String.prototype.trim\<close> have
  it, 25 code units: TAB, LF, VT, FF, CR, space, NBSP, U+1680, U+2000 to U+200A, U+2028,
  U+2029, U+202F, U+205F, U+3000 and U+FEFF.\<close>

definition isWhitespace :: "nat \<Rightarrow> bool" where
  "isWhitespace c = (c = 9 \<or> c = 10 \<or> c = 11 \<or> c = 12 \<or> c = 13 \<or> c = 32 \<or> c = 160 \<or>
     c = 5760 \<or> (8192 \<le> c \<and> c \<le> 8202) \<or> c = 8232 \<or> c = 8233 \<or> c = 8239 \<or>
     c = 8287 \<or> c = 12288 \<or> c = 65279)"

definition isLowerAZ :: "nat \<Rightarrow> bool" where
  "isLowerAZ c = (97 \<le> c \<and> c \<le> 122)"

definition isDigit :: "nat \<Rightarrow> bool" where
  "isDigit c = (48 \<le> c \<and> c \<le> 57)"

definition trim :: "jsstring \<Rightarrow> jsstring" where
  "trim s = rev (dropWhile isWhitespace (rev (dropWhile isWhitespace s)))"

definition substring0 :: "nat \<Rightarrow> jsstring \<Rightarrow> jsstring" where
  "substring0 n s = take n s"

text \<open>\<open>Array.prototype.join\<close> on an array of strings.\<close>

fun joinWith :: "jsstring \<Rightarrow> jsstring list \<Rightarrow> jsstring" where
  "joinWith sep [] = []"
| "joinWith sep [x] = x"
| "joinWith sep (x # y # ys) = x @ sep @ joinWith sep (y # ys)"

text \<open>The decimal digits of a natural number, most significant first.\<close>

fun showNat :: "nat \<Rightarrow> jsstring" where
  "showNat n = (if n < 10 then [48 + n] else showNat (n div 10) @ [48 + n mod 10])"

declare showNat.simps [simp del]

text \<open>\<open>Math.round(fileSize / 1024)\<close> on a byte count: division by a power of two is exact
  in binary floating point, and \<open>Math.round\<close> rounds a tie upwards.\<close>

definition roundKB :: "nat \<Rightarrow> nat" where
  "roundKB fileSize = nat \<lfloor>(of_nat fileSize :: real) / 1024 + 1 / 2\<rfloor>"

section \<open>Values, errors and responses\<close>

text \<open>The argument object of a tool call arrives as parsed JSON and is typed \<open>any\<close>: a field
  may be absent (\<open>undefined\<close>) or hold any JSON value.  Arrays and objects are not looked
  into by the handler, so one constructor stands for them.  A JSON number is finite, so
  \<open>NaN\<close> has no constructor, and zero is the only falsy number.\<close>

datatype jsval = JUndefined | JNull | JBool bool | JNum real | JStr jsstring | JObject

definition truthy :: "jsval \<Rightarrow> bool" where
  "truthy v = (case v of JUndefined \<Rightarrow> False | JNull \<Rightarrow> False | JBool b \<Rightarrow> b
     | JNum x \<Rightarrow> x \<noteq> 0 | JStr s \<Rightarrow> s \<noteq> [] | JObject \<Rightarrow> True)"

definition typeof :: "jsval \<Rightarrow> jsstring" where
  "typeof v = (case v of JUndefined \<Rightarrow> js ''undefined'' | JNull \<Rightarrow> js ''object''
     | JBool b \<Rightarrow> js ''boolean'' | JNum x \<Rightarrow> js ''number'' | JStr s \<Rightarrow> js ''string''
     | JObject \<Rightarrow> js ''object'')"

text \<open>The text of a value already known to be a string (\<open>typeof v\<close> is \<open>string\<close>).\<close>

definition stringOf :: "jsval \<Rightarrow> jsstring" where
  "stringOf v = (case v of JStr s \<Rightarrow> s | _ \<Rightarrow> [])"

text \<open>The operator \<open>a || b\<close>.\<close>

definition jsOr :: "jsval \<Rightarrow> jsval \<Rightarrow> jsval" where
  "jsOr a b = (if truthy a then a else b)"

datatype errorKind = Validation | Processing

text \<open>What a \<open>throw\<close> carries: an \<open>McpError\<close> with its kind and message, or any other
  value (a \<open>TypeError\<close> of the runtime, a system error of \<open>fs\<close>), for which
  \<open>err instanceof McpError\<close> is false.\<close>

datatype thrown = McpError errorKind jsstring | ForeignError jsstring

text \<open>Modelled from the spec: \<open>errors.ts\<close> is not part of the sources at hand.  The two
  constructors build an \<open>McpError\<close> of the named kind whose \<open>message\<close> is the text given.\<close>

definition validationError :: "jsstring \<Rightarrow> thrown" where
  "validationError msg = McpError Validation msg"

definition processingError :: "jsstring \<Rightarrow> thrown" where
  "processingError msg = McpError Processing msg"

definition instanceofMcpError :: "thrown \<Rightarrow> bool" where
  "instanceofMcpError err = (case err of McpError k m \<Rightarrow> True | ForeignError x \<Rightarrow> False)"

definition message :: "thrown \<Rightarrow> jsstring" where
  "message err = (case err of McpError k m \<Rightarrow> m | ForeignError x \<Rightarrow> x)"

datatype contentBlock = TextBlock jsstring

text \<open>The object handed back to the transport; \<open>isError\<close> is \<open>None\<close> where the source
  leaves the property out.\<close>

record toolResponse =
  content :: "contentBlock list"
  isError :: "bool option"

record toolArgs =
  arg_prompt :: jsval
  arg_model :: jsval
  arg_output_path :: jsval
  arg_width :: jsval
  arg_height :: jsval
  arg_quality :: jsval

section \<open>Collaborators\<close>

text \<open>The handler drives components whose code is outside \<open>index.ts\<close>: the remote
  generation client, the image processor, the temp-file manager, the configuration, and the
  \<open>path\<close> and \<open>fs\<close> modules of the runtime.  They are parameters of the model.  A call that
  can fail returns \<open>Inl\<close> of what it throws.  \<open>isModelSupported\<close>, \<open>getAvailableModels\<close>,
  \<open>calculateCost\<close> and \<open>getConfig\<close> are lookups without I/O that return.  Pixel sizes, the
  byte count and the processing time in milliseconds are natural numbers.  Three built-ins
  of the runtime are parameters too: \<open>toISOString\<close> is the text of
  \<open>new Date().toISOString()\<close> at the time of the call, \<open>toLowerCase\<close> is
  \<open>String.prototype.toLowerCase\<close> (the case mapping of Unicode), and \<open>toStringOther\<close> is
  the conversion to text of a value that is not a string.\<close>

type_synonym buffer = "nat list"

record genRequest =
  req_prompt :: jsstring
  req_model :: jsval
  req_width :: jsval
  req_height :: jsval

record genResult =
  imageUrls :: "jsstring list"
  processingTime :: nat

record processOptions =
  opt_outputPath :: jsstring
  opt_quality :: jsval
  opt_width :: jsval
  opt_height :: jsval

record processResult =
  pr_outputPath :: jsstring
  pr_fileSize :: nat
  pr_width :: nat
  pr_height :: nat

record config =
  outputFormat :: jsstring
  defaultModel :: jsstring
  outputQuality :: real

record env =
  isModelSupported :: "jsval \<Rightarrow> bool"
  getAvailableModels :: "jsstring list"
  generateImage :: "genRequest \<Rightarrow> thrown + genResult"
  downloadImage :: "jsstring \<Rightarrow> thrown + buffer"
  mkdir :: "jsstring \<Rightarrow> thrown + unit"
  processImage :: "buffer \<Rightarrow> processOptions \<Rightarrow> thrown + processResult"
  calculateCost :: "jsval \<Rightarrow> real"
  getConfig :: config
  workingDirectory :: jsstring
  isAbsolute :: "jsstring \<Rightarrow> bool"
  pathJoin :: "jsstring \<Rightarrow> jsstring \<Rightarrow> jsstring"
  dirname :: "jsstring \<Rightarrow> jsstring"
  toISOString :: jsstring
  toLowerCase :: "jsstring \<Rightarrow> jsstring"
  toStringOther :: "jsval \<Rightarrow> jsstring"

text \<open>A value inside a template literal: a string stands for itself; the text of any other
  value is the runtime's.\<close>

definition template :: "env \<Rightarrow> jsval \<Rightarrow> jsstring" where
  "template e v = (case v of JStr s \<Rightarrow> s | _ \<Rightarrow> toStringOther e v)"

text \<open>A non-negative integer inside a template literal: its decimal digits below \<open>10^21\<close>;
  from there on the runtime prints exponent notation.\<close>

definition numberText :: "env \<Rightarrow> nat \<Rightarrow> jsstring" where
  "numberText e n = (if n < 10 ^ 21 then showNat n else toStringOther e (JNum (of_nat n)))"

text \<open>\<open>Number.prototype.toFixed(3)\<close> on the exact value of a finite number, following the
  steps of the language definition: the sign is split off; at \<open>10^21\<close> and above the result
  is the runtime's text of the number; below, \<open>n\<close> is the integer nearest to \<open>x * 1000\<close>
  (the larger one on a tie), its digits are padded with zeros to at least four, and the
  point goes before the last three.\<close>

definition toFixed3 :: "env \<Rightarrow> real \<Rightarrow> jsstring" where
  "toFixed3 e x =
     (if x < 0 then js ''-'' else []) @
     (if \<bar>x\<bar> < 10 ^ 21 then
        (let n = nat \<lfloor>\<bar>x\<bar> * 1000 + 1 / 2\<rfloor>;
             m = showNat n;
             m' = replicate (4 - length m) 48 @ m
         in take (length m' - 3) m' @ js ''.'' @ drop (length m' - 3) m')
      else toStringOther e (JNum \<bar>x\<bar>))"

text \<open>What the handler does to the outside world, in order.  Modelled from the spec:
  \<open>temp.ts\<close> is not part of the sources at hand; \<open>cleanupAll\<close> removes what is tracked and
  never raises, so it is an event with no outcome.  The logging calls \<open>info\<close> and \<open>error\<close>
  decide nothing and are left out.\<close>

datatype event =
    EvGenerate genRequest
  | EvDownload jsstring
  | EvMkdir jsstring
  | EvProcess buffer processOptions
  | EvCleanupAll

section \<open>Filename derivation\<close>

text \<open>\<open>replace(/[^a-z0-9\s]/g, '')\<close>: every code unit that is not a lower-case letter,
  a digit or white space is deleted.\<close>

definition keptInFilename :: "nat \<Rightarrow> bool" where
  "keptInFilename c = (isLowerAZ c \<or> isDigit c \<or> isWhitespace c)"

definition stripSpecial :: "jsstring \<Rightarrow> jsstring" where
  "stripSpecial s = filter keptInFilename s"

text \<open>\<open>replace(/\s+/g, '_')\<close>: the matcher scans from the left; at a white-space code unit
  it takes the longest run (the flag says that a run is being consumed) and puts one
  underscore in its place.\<close>

fun replaceWsRuns :: "bool \<Rightarrow> jsstring \<Rightarrow> jsstring" where
  "replaceWsRuns inRun [] = []"
| "replaceWsRuns inRun (c # cs) =
     (if isWhitespace c
      then (if inRun then replaceWsRuns True cs else cu (CHR ''_'') # replaceWsRuns True cs)
      else c # replaceWsRuns False cs)"

text \<open>\<open>replace(/[:.]/g, '-')\<close>\<close>

definition hyphenate :: "nat \<Rightarrow> nat" where
  "hyphenate c = (if c = cu (CHR '':'') \<or> c = cu (CHR ''.'') then cu (CHR ''-'') else c)"

text \<open>\<open>generateFilename(prompt, format)\<close>.\<close>

definition generateFilename :: "env \<Rightarrow> jsstring \<Rightarrow> jsstring \<Rightarrow> jsstring" where
  "generateFilename e prompt format =
     (let cleanPrompt = substring0 50 (replaceWsRuns False (stripSpecial (toLowerCase e prompt)));
          timestamp = substring0 19 (map hyphenate (toISOString e))
      in cleanPrompt @ js ''_'' @ timestamp @ js ''.'' @ format)"

section \<open>The handler\<close>

text \<open>\<open>resolveOutputPath(outputPath, prompt, defaultFormat)\<close>.  \<open>path.isAbsolute\<close> throws a
  \<open>TypeError\<close> when its argument is not a string.\<close>

definition resolveOutputPath :: "env \<Rightarrow> jsval \<Rightarrow> jsstring \<Rightarrow> jsstring \<Rightarrow> thrown + jsstring" where
  "resolveOutputPath e outputPath prompt defaultFormat =
     (if truthy outputPath then
        (case outputPath of
           JStr p \<Rightarrow>
             if \<not> isAbsolute e p then
               Inl (validationError (js ''output_path must be an absolute path. Relative paths are not supported because the client and server may run in different environments.''))
             else Inr p
         | _ \<Rightarrow> Inl (ForeignError (js ''TypeError'')))
      else
        (let filename = generateFilename e prompt defaultFormat
         in Inr (pathJoin e (workingDirectory e) filename)))"

text \<open>The values fixed before the \<open>try\<close> block of \<open>handleGenerateImage\<close>.\<close>

record validated =
  v_prompt :: jsstring
  v_resolvedOutputPath :: jsstring
  v_model :: jsval
  v_width :: jsval
  v_height :: jsval
  v_quality :: jsval

text \<open>The first part of \<open>handleGenerateImage\<close>, up to the \<open>try\<close>: the prompt check, the
  resolution of the output path, the defaults and the model check, in the order of the
  source.  \<open>args\<close> is \<open>None\<close> when the request has no \<open>arguments\<close>; reading \<open>args.prompt\<close>
  is then a \<open>TypeError\<close>.\<close>

definition validateCall :: "env \<Rightarrow> toolArgs option \<Rightarrow> thrown + validated" where
  "validateCall e args =
     (case args of
        None \<Rightarrow> Inl (ForeignError (js ''TypeError''))
      | Some a \<Rightarrow>
          if \<not> truthy (arg_prompt a) \<or> typeof (arg_prompt a) \<noteq> js ''string'' \<or>
             length (trim (stringOf (arg_prompt a))) = 0 then
            Inl (validationError (js ''Prompt is required and must be a non-empty string''))
          else
            (let prompt = trim (stringOf (arg_prompt a));
                 config = getConfig e
             in case resolveOutputPath e (arg_output_path a) prompt (outputFormat config) of
                  Inl err \<Rightarrow> Inl err
                | Inr resolvedOutputPath \<Rightarrow>
                   (let modelParam = jsOr (arg_model a) (JStr (defaultModel config));
                        width = jsOr (arg_width a) (JNum 1024);
                        height = jsOr (arg_height a) (JNum 768);
                        quality = jsOr (arg_quality a) (JNum (outputQuality config))
                    in if \<not> isModelSupported e modelParam then
                         Inl (validationError (js ''Unsupported model: '' @ template e modelParam @
                                js ''. Supported models: '' @
                                joinWith (js '', '') (getAvailableModels e)))
                       else
                         Inr \<lparr>v_prompt = prompt, v_resolvedOutputPath = resolvedOutputPath,
                              v_model = modelParam, v_width = width, v_height = height,
                              v_quality = quality\<rparr>)))"

text \<open>The text of the success response.\<close>

definition successText :: "env \<Rightarrow> processResult \<Rightarrow> jsval \<Rightarrow> genResult \<Rightarrow> real \<Rightarrow> jsstring" where
  "successText e processResult model result cost =
     js ''Image generated successfully!\<newline>\<newline>Output: '' @ pr_outputPath processResult @
     js ''\<newline>Model: '' @ template e model @
     js ''\<newline>Dimensions: '' @ numberText e (pr_width processResult) @ js ''x'' @
       numberText e (pr_height processResult) @
     js ''\<newline>File size: '' @ numberText e (roundKB (pr_fileSize processResult)) @ js ''KB'' @
     js ''\<newline>Processing time: '' @ numberText e (processingTime result) @ js ''ms'' @
     js ''\<newline>Cost: $'' @ toFixed3 e cost @
     js ''\<newline>Working Directory: '' @ workingDirectory e"

text \<open>The body of the \<open>try\<close> block: the events so far and either what was thrown or the
  response.\<close>

definition tryBody :: "env \<Rightarrow> validated \<Rightarrow> event list \<times> (thrown + toolResponse)" where
  "tryBody e v =
     (let request = \<lparr>req_prompt = v_prompt v, req_model = v_model v,
                      req_width = v_width v, req_height = v_height v\<rparr>
      in case generateImage e request of
           Inl err \<Rightarrow> ([EvGenerate request], Inl err)
         | Inr result \<Rightarrow>
            (case imageUrls result of
               [] \<Rightarrow> ([EvGenerate request], Inl (processingError (js ''No images were generated'')))
             | imageUrl # rest \<Rightarrow>
                if imageUrl = [] then
                  ([EvGenerate request], Inl (processingError (js ''No valid image URL returned'')))
                else
                  (case downloadImage e imageUrl of
                     Inl err \<Rightarrow> ([EvGenerate request, EvDownload imageUrl], Inl err)
                   | Inr imageBuffer \<Rightarrow>
                      (let outputDir = dirname e (v_resolvedOutputPath v)
                       in case mkdir e outputDir of
                            Inl err \<Rightarrow>
                              ([EvGenerate request, EvDownload imageUrl, EvMkdir outputDir], Inl err)
                          | Inr u \<Rightarrow>
                             (let options = \<lparr>opt_outputPath = v_resolvedOutputPath v,
                                             opt_quality = v_quality v,
                                             opt_width = v_width v, opt_height = v_height v\<rparr>
                              in case processImage e imageBuffer options of
                                   Inl err \<Rightarrow>
                                     ([EvGenerate request, EvDownload imageUrl, EvMkdir outputDir,
                                       EvProcess imageBuffer options], Inl err)
                                 | Inr processResult \<Rightarrow>
                                    (let cost = calculateCost e (v_model v)
                                     in ([EvGenerate request, EvDownload imageUrl,
                                          EvMkdir outputDir, EvProcess imageBuffer options],
                                         Inr \<lparr>content = [TextBlock
                                                (successText e processResult (v_model v) result cost)],
                                              isError = None\<rparr>)))))))"

text \<open>\<open>handleGenerateImage(args)\<close>: what is thrown before the \<open>try\<close> leaves at once; what is
  thrown inside it passes through the \<open>catch\<close>, which calls \<open>cleanupAll\<close> and throws the
  same value again.\<close>

definition handleGenerateImage :: "env \<Rightarrow> toolArgs option \<Rightarrow> event list \<times> (thrown + toolResponse)" where
  "handleGenerateImage e args =
     (case validateCall e args of
        Inl err \<Rightarrow> ([], Inl err)
      | Inr v \<Rightarrow>
         (case tryBody e v of
            (events, Inl err) \<Rightarrow> (events @ [EvCleanupAll], Inl err)
          | (events, Inr response) \<Rightarrow> (events, Inr response)))"

text \<open>The handler registered for \<open>CallToolRequestSchema\<close>, on the \<open>name\<close> and
  \<open>arguments\<close> of the request.\<close>

definition callToolHandler :: "env \<Rightarrow> jsstring \<Rightarrow> toolArgs option \<Rightarrow> event list \<times> (thrown + toolResponse)" where
  "callToolHandler e name args =
     (if name = js ''generate_image'' then
        (case handleGenerateImage e args of
           (events, Inr response) \<Rightarrow> (events, Inr response)
         | (events, Inl err) \<Rightarrow>
            (let mcpError = (if instanceofMcpError err then err
                             else processingError (js ''Unknown error occurred''))
             in (events, Inr \<lparr>content = [TextBlock (js ''Error: '' @ message mcpError)],
                              isError = Some True\<rparr>)))
      else ([], Inl (validationError (js ''Unknown tool: '' @ name))))"

section \<open>Stub collaborators for the examples\<close>

text \<open>The four model names of the tool's input schema.\<close>

definition schemaModels :: "jsstring list" where
  "schemaModels = [js ''flux-1.1-pro'', js ''flux-pro'', js ''flux-schnell'', js ''flux-ultra'']"

text \<open>POSIX \<open>path.isAbsolute\<close>: the path starts with a slash.\<close>

definition posixIsAbsolute :: "jsstring \<Rightarrow> bool" where
  "posixIsAbsolute p = (case p of [] \<Rightarrow> False | c # cs \<Rightarrow> c = cu (CHR ''/''))"

text \<open>Lower-casing of a text in ASCII: \<open>A\<close> to \<open>Z\<close> become \<open>a\<close> to \<open>z\<close>.\<close>

definition asciiLowerCase :: "jsstring \<Rightarrow> jsstring" where
  "asciiLowerCase s = map (\<lambda>c. if 65 \<le> c \<and> c \<le> 90 then c + 32 else c) s"

text \<open>Stubs in the manner of the end-to-end scenario: the remote client returns one asset
  URL, the processor reports a 1024 by 768 file of 200000 bytes, nothing fails.  The path
  functions and the lower-casing are right for the plain ASCII texts of the examples.\<close>

definition stubUrl :: jsstring where
  "stubUrl = js ''https://replicate.delivery/out.webp''"

definition stubEnv :: env where
  "stubEnv = \<lparr>
     isModelSupported = (\<lambda>m. m \<in> set (map JStr schemaModels)),
     getAvailableModels = schemaModels,
     generateImage = (\<lambda>r. Inr \<lparr>imageUrls = [stubUrl], processingTime = 1234\<rparr>),
     downloadImage = (\<lambda>url. Inr [82, 73, 70, 70]),
     mkdir = (\<lambda>dir. Inr ()),
     processImage = (\<lambda>b opts. Inr \<lparr>pr_outputPath = opt_outputPath opts, pr_fileSize = 200000,
                                    pr_width = 1024, pr_height = 768\<rparr>),
     calculateCost = (\<lambda>m. 3 / 1000),
     getConfig = \<lparr>outputFormat = js ''png'', defaultModel = js ''flux-1.1-pro'',
                  outputQuality = 80\<rparr>,
     workingDirectory = js ''/srv/flux'',
     isAbsolute = posixIsAbsolute,
     pathJoin = (\<lambda>d f. d @ js ''/'' @ f),
     dirname = (\<lambda>p. rev (drop 1 (dropWhile (\<lambda>c. c \<noteq> cu (CHR ''/'')) (rev p)))),
     toISOString = js ''2024-01-15T10:30:45.123Z'',
     toLowerCase = asciiLowerCase,
     toStringOther = (\<lambda>v. js ''[object Object]'')\<rparr>"

definition promptOnly :: "string \<Rightarrow> toolArgs" where
  "promptOnly p = \<lparr>arg_prompt = JStr (js p), arg_model = JUndefined, arg_output_path = JUndefined,
     arg_width = JUndefined, arg_height = JUndefined, arg_quality = JUndefined\<rparr>"

text \<open>What the stubs receive and return for the prompt \<open>a cat\<close> with nothing else given.\<close>

definition catRequest :: genRequest where
  "catRequest = \<lparr>req_prompt = js ''a cat'', req_model = JStr (js ''flux-1.1-pro''),
     req_width = JNum 1024, req_height = JNum 768\<rparr>"

definition catOptions :: "jsval \<Rightarrow> processOptions" where
  "catOptions q = \<lparr>opt_outputPath = js ''/srv/flux/a_cat_2024-01-15T10-30-45.png'',
     opt_quality = q, opt_width = JNum 1024, opt_height = JNum 768\<rparr>"

definition catSuccess :: toolResponse where
  "catSuccess = \<lparr>content = [TextBlock (js
     ''Image generated successfully!\<newline>\<newline>Output: /srv/flux/a_cat_2024-01-15T10-30-45.png\<newline>Model: flux-1.1-pro\<newline>Dimensions: 1024x768\<newline>File size: 195KB\<newline>Processing time: 1234ms\<newline>Cost: $0.003\<newline>Working Directory: /srv/flux'')],
     isError = None\<rparr>"

section \<open>The calls the handler makes\<close>

text \<open>The one request sent to the remote client and the one option set sent to the
  processor, as \<open>tryBody\<close> builds them.\<close>

definition requestOf :: "validated \<Rightarrow> genRequest" where
  "requestOf v = \<lparr>req_prompt = v_prompt v, req_model = v_model v,
     req_width = v_width v, req_height = v_height v\<rparr>"

definition optionsOf :: "validated \<Rightarrow> processOptions" where
  "optionsOf v = \<lparr>opt_outputPath = v_resolvedOutputPath v, opt_quality = v_quality v,
     opt_width = v_width v, opt_height = v_height v\<rparr>"

text \<open>\<open>raisedBy e ev err\<close>: the stage whose call is the event \<open>ev\<close> is where \<open>err\<close> was
  thrown.  After the remote submission that is the client's own error, or one of the two
  checks on the returned URLs.\<close>

definition raisedBy :: "env \<Rightarrow> event \<Rightarrow> thrown \<Rightarrow> bool" where
  "raisedBy e ev err =
     (case ev of
        EvGenerate request \<Rightarrow>
          (case generateImage e request of
             Inl err' \<Rightarrow> err = err'
           | Inr result \<Rightarrow>
              (case imageUrls result of
                 [] \<Rightarrow> err = processingError (js ''No images were generated'')
               | imageUrl # rest \<Rightarrow>
                   imageUrl = [] \<and> err = processingError (js ''No valid image URL returned'')))
      | EvDownload url \<Rightarrow> downloadImage e url = Inl err
      | EvMkdir dir \<Rightarrow> mkdir e dir = Inl err
      | EvProcess b options \<Rightarrow> processImage e b options = Inl err
      | EvCleanupAll \<Rightarrow> False)"

section \<open>The filename and the numbers as the specification words them\<close>

text \<open>Collapsing each run of white space to a single underscore: at a white-space
  character the whole run is dropped and one underscore is written.\<close>

function collapseRuns :: "jsstring \<Rightarrow> jsstring" where
  "collapseRuns [] = []"
| "collapseRuns (c # cs) =
     (if isWhitespace c then cu (CHR ''_'') # collapseRuns (dropWhile isWhitespace cs)
      else c # collapseRuns cs)"
  by pat_completeness auto
termination
  by (relation "measure length") (auto simp: length_dropWhile_le less_Suc_eq_le)

text \<open>The characters that survive the stripping, as the specification's sentence has them
  (\<open>[a-z0-9 ]\<close>: letters, digits and the space character only), and with all white space
  kept.\<close>

definition keptAsWorded :: "nat \<Rightarrow> bool" where
  "keptAsWorded c = (c \<in> set (js ''abcdefghijklmnopqrstuvwxyz0123456789 ''))"

definition keptWithWhitespace :: "nat \<Rightarrow> bool" where
  "keptWithWhitespace c = (c \<in> set (js ''abcdefghijklmnopqrstuvwxyz0123456789'') \<or> isWhitespace c)"

definition timestampAsDescribed :: "jsstring \<Rightarrow> jsstring" where
  "timestampAsDescribed isoNow =
     take 19 (map (\<lambda>c. if c \<in> set (js '':.'') then cu (CHR ''-'') else c) isoNow)"

definition filenameAsDescribed :: "(nat \<Rightarrow> bool) \<Rightarrow> env \<Rightarrow> jsstring \<Rightarrow> jsstring \<Rightarrow> jsstring" where
  "filenameAsDescribed kept e prompt format =
     take 50 (collapseRuns (filter kept (toLowerCase e prompt))) @
     js ''_'' @ timestampAsDescribed (toISOString e) @ js ''.'' @ format"




text \<open>
  Sample inputs of the examples: what the checks before the \<open>try\<close> block fix for the
  prompt \<open>a cat\<close>, and stubs in which one collaborator fails.
\<close>

definition catValidated :: validated where
  "catValidated = \<lparr>v_prompt = js ''a cat'',
     v_resolvedOutputPath = js ''/srv/flux/a_cat_2024-01-15T10-30-45.png'',
     v_model = JStr (js ''flux-1.1-pro''), v_width = JNum 1024, v_height = JNum 768,
     v_quality = JNum 80\<rparr>"

definition failingDownload :: env where
  "failingDownload = stubEnv\<lparr>downloadImage := \<lambda>url. Inl (processingError (js ''Failed to download image''))\<rparr>"

definition failingMkdir :: env where
  "failingMkdir = stubEnv\<lparr>mkdir := \<lambda>dir. Inl (ForeignError (js ''EACCES''))\<rparr>"

definition noUrls :: env where
  "noUrls = stubEnv\<lparr>generateImage := \<lambda>r. Inr \<lparr>imageUrls = [], processingTime = 900\<rparr>\<rparr>"


section \<open>Rules for running the model on concrete inputs\<close>

lemma showNat_small: "n < 10 \<Longrightarrow> showNat n = [48 + n]"
  by (simp add: showNat.simps)

lemma showNat_big: "10 \<le> n \<Longrightarrow> showNat n = showNat (n div 10) @ [48 + n mod 10]"
  by (subst showNat.simps) simp

lemma replicate_numeral: "replicate (numeral k) x = x # replicate (numeral k - 1) x"
  by (simp add: numeral_eq_Suc)

lemma roundKB_div: "roundKB n = (n + 512) div 1024"
proof -
  have "(of_nat n :: real) / 1024 + 1 / 2 = of_nat (n + 512) / of_nat 1024"
    by (simp add: field_simps)
  then show ?thesis
    unfolding roundKB_def by (simp only: floor_divide_of_nat_eq nat_int)
qed

lemmas string_rules = cu_def js_def isWhitespace_def isLowerAZ_def isDigit_def trim_def
  substring0_def keptInFilename_def stripSpecial_def hyphenate_def generateFilename_def
  showNat_small showNat_big replicate_numeral roundKB_div toFixed3_def numberText_def
  asciiLowerCase_def

lemmas value_rules = truthy_def typeof_def stringOf_def jsOr_def validationError_def
  processingError_def instanceofMcpError_def message_def template_def

lemmas handler_rules = resolveOutputPath_def validateCall_def successText_def tryBody_def
  handleGenerateImage_def callToolHandler_def

lemmas stub_rules = schemaModels_def posixIsAbsolute_def stubUrl_def stubEnv_def promptOnly_def

lemmas sample_rules = catRequest_def catOptions_def catSuccess_def

lemmas more_rules = catValidated_def failingDownload_def failingMkdir_def noUrls_def requestOf_def optionsOf_def

lemmas all_rules = string_rules value_rules handler_rules stub_rules sample_rules

section \<open>Filename derivation: the code against the description\<close>

lemma replaceWsRuns_inside_run:
  "replaceWsRuns True s = replaceWsRuns False (dropWhile isWhitespace s)"
  by (induction s) simp_all

lemma replaceWsRuns_collapseRuns: "replaceWsRuns False s = collapseRuns s"
  by (induction s rule: collapseRuns.induct) (simp_all add: replaceWsRuns_inside_run)

lemma lower_letters: "js ''abcdefghijklmnopqrstuvwxyz'' = [97..<123]"
  by (simp add: js_def cu_def)

lemma decimal_digits: "js ''0123456789'' = [48..<58]"
  by (simp add: js_def cu_def)

lemma letters_and_digits:
  "js ''abcdefghijklmnopqrstuvwxyz0123456789'' = [97..<123] @ [48..<58]"
  by (simp add: js_def cu_def)

lemma keptInFilename_eq: "keptInFilename = keptWithWhitespace"
proof (rule ext)
  fix c
  have "isLowerAZ c \<or> isDigit c \<longleftrightarrow> c \<in> set ([97..<123] @ [48..<58])"
    unfolding set_append set_upt by (auto simp: isLowerAZ_def isDigit_def)
  then have "keptInFilename c \<longleftrightarrow> c \<in> set ([97..<123] @ [48..<58]) \<or> isWhitespace c"
    unfolding keptInFilename_def by blast
  then show "keptInFilename c = keptWithWhitespace c"
    by (simp only: keptWithWhitespace_def letters_and_digits)
qed

lemma map_hyphenate:
  "map hyphenate s = map (\<lambda>c. if c \<in> set (js '':.'') then cu (CHR ''-'') else c) s"
  by (simp add: hyphenate_def js_def)

text \<open>
  C2, as amended.  For every prompt, the generated filename is the prompt lower-cased (by
  the runtime's \<open>toLowerCase\<close>), with every code unit other than \<open>a\<close>-\<open>z\<close>, \<open>0\<close>-\<open>9\<close>
  and white space (the 25 code units of the class \<open>\s\<close>: space, tab, line breaks,
  no-break space and the rest) removed, each run of white space collapsed to one
  underscore, cut to 50 code units, followed by an underscore, the first 19 code units of
  the ISO timestamp with colons and periods turned into hyphens, a dot and the format.  The
  timestamp part has 19 code units whenever the ISO text has at least that many.
\<close>

theorem generateFilename_as_described:
  "generateFilename e prompt format = filenameAsDescribed keptWithWhitespace e prompt format
   \<and> (19 \<le> length (toISOString e) \<longrightarrow> length (timestampAsDescribed (toISOString e)) = 19)"
  by (simp add: generateFilename_def filenameAsDescribed_def timestampAsDescribed_def
      substring0_def stripSpecial_def replaceWsRuns_collapseRuns keptInFilename_eq map_hyphenate)

text \<open>
  The example of the specification: \<open>A Red Fox, Running!\<close> with format \<open>png\<close>.
\<close>

theorem generateFilename_red_fox:
  "toLowerCase stubEnv (js ''A Red Fox, Running!'') = js ''a red fox, running!''
   \<and> filenameAsDescribed keptWithWhitespace stubEnv (js ''A Red Fox, Running!'') (js ''png'')
     = js ''a_red_fox_running_2024-01-15T10-30-45.png''
   \<and> 19 \<le> length (toISOString stubEnv)
   \<and> length (timestampAsDescribed (toISOString stubEnv)) = 19"
  using generateFilename_as_described [THEN conjunct1, symmetric,
      of stubEnv "js ''A Red Fox, Running!''" "js ''png''"]
    generateFilename_as_described [THEN conjunct2, of stubEnv]
  by (simp add: string_rules stub_rules)

text \<open>
  C2 as worded keeps the space character only.  A tab inside the prompt survives the
  stripping in the code and becomes an underscore; by the wording it would be deleted.
\<close>

theorem generateFilename_tab_kept:
  "generateFilename stubEnv [cu (CHR ''a''), 9, cu (CHR ''b'')] (js ''png'')
     \<noteq> filenameAsDescribed keptAsWorded stubEnv [cu (CHR ''a''), 9, cu (CHR ''b'')] (js ''png'')"
  by (simp add: string_rules stub_rules filenameAsDescribed_def keptAsWorded_def timestampAsDescribed_def)

text \<open>
  White space outside Latin-1 is kept and collapsed as well: an ideographic space, a line
  separator next to a paragraph separator, and a byte-order mark.
\<close>

lemma generateFilename_wide_whitespace: "generateFilename stubEnv [12288, 97, 8232, 8233, 98, 65279] (js ''png'') = js ''_a_b__2024-01-15T10-30-45.png''"
  by (simp add: string_rules stub_rules)

section \<open>The shape of a run\<close>

lemma tryBody_events:
  assumes "tryBody e v = (events, out)"
  shows "events \<noteq> [] \<and> EvCleanupAll \<notin> set events"
  using assms
  by (auto simp: tryBody_def Let_def split: sum.splits list.splits if_splits)

lemma tryBody_generate:
  assumes "tryBody e v = (events, out)" "EvGenerate request \<in> set events"
  shows "request = requestOf v"
  using assms
  by (auto simp: tryBody_def requestOf_def Let_def split: sum.splits list.splits if_splits)

lemma tryBody_process:
  assumes "tryBody e v = (events, out)" "EvProcess b options \<in> set events"
  shows "options = optionsOf v"
  using assms
  by (auto simp: tryBody_def optionsOf_def Let_def split: sum.splits list.splits if_splits)

lemma tryBody_raisedBy:
  assumes "tryBody e v = (events, Inl err)"
  shows "raisedBy e (last events) err"
  using assms
  by (auto simp: tryBody_def raisedBy_def Let_def split: sum.splits list.splits if_splits)

lemma tryBody_generate_fails:
  assumes "generateImage e (requestOf v) = Inl err"
  shows "tryBody e v = ([EvGenerate (requestOf v)], Inl err)"
  using assms by (simp add: tryBody_def requestOf_def Let_def)

lemma tryBody_no_urls:
  assumes "generateImage e (requestOf v) = Inr result" "imageUrls result = []"
  shows "tryBody e v
           = ([EvGenerate (requestOf v)], Inl (processingError (js ''No images were generated'')))"
  using assms by (simp add: tryBody_def requestOf_def Let_def)

lemma tryBody_empty_url:
  assumes "generateImage e (requestOf v) = Inr result" "imageUrls result = [] # rest"
  shows "tryBody e v
           = ([EvGenerate (requestOf v)], Inl (processingError (js ''No valid image URL returned'')))"
  using assms by (simp add: tryBody_def requestOf_def Let_def)

lemma tryBody_download_fails:
  assumes "generateImage e (requestOf v) = Inr result" "imageUrls result = url # rest"
    "url \<noteq> []" "downloadImage e url = Inl err"
  shows "tryBody e v = ([EvGenerate (requestOf v), EvDownload url], Inl err)"
  using assms by (simp add: tryBody_def requestOf_def Let_def)

lemma tryBody_mkdir_fails:
  assumes "generateImage e (requestOf v) = Inr result" "imageUrls result = url # rest"
    "url \<noteq> []" "downloadImage e url = Inr imageBuffer"
    "mkdir e (dirname e (v_resolvedOutputPath v)) = Inl err"
  shows "tryBody e v = ([EvGenerate (requestOf v), EvDownload url,
                         EvMkdir (dirname e (v_resolvedOutputPath v))], Inl err)"
  using assms by (simp add: tryBody_def requestOf_def Let_def)

lemma tryBody_process_fails:
  assumes "generateImage e (requestOf v) = Inr result" "imageUrls result = url # rest"
    "url \<noteq> []" "downloadImage e url = Inr imageBuffer"
    "mkdir e (dirname e (v_resolvedOutputPath v)) = Inr u"
    "processImage e imageBuffer (optionsOf v) = Inl err"
  shows "tryBody e v = ([EvGenerate (requestOf v), EvDownload url,
                         EvMkdir (dirname e (v_resolvedOutputPath v)),
                         EvProcess imageBuffer (optionsOf v)], Inl err)"
  using assms by (simp add: tryBody_def requestOf_def optionsOf_def Let_def)


lemma handle_rethrows:
  assumes "validateCall e args = Inr v" "tryBody e v = (pre, Inl err)"
  shows "handleGenerateImage e args = (pre @ [EvCleanupAll], Inl err)"
  using assms by (simp add: handleGenerateImage_def)

lemma validateCall_Inr:
  assumes "validateCall e args = Inr v"
  shows "\<exists>a. args = Some a \<and>
           (\<exists>s. arg_prompt a = JStr s \<and> trim s \<noteq> [] \<and> v_prompt v = trim s) \<and>
           resolveOutputPath e (arg_output_path a) (v_prompt v) (outputFormat (getConfig e)) = Inr (v_resolvedOutputPath v) \<and>
           v_model v = jsOr (arg_model a) (JStr (defaultModel (getConfig e))) \<and>
           v_width v = jsOr (arg_width a) (JNum 1024) \<and>
           v_height v = jsOr (arg_height a) (JNum 768) \<and>
           v_quality v = jsOr (arg_quality a) (JNum (outputQuality (getConfig e))) \<and>
           isModelSupported e (v_model v)"
proof -
  from assms obtain a where a: "args = Some a"
    by (cases args) (simp_all add: validateCall_def)
  from assms a obtain s where s: "arg_prompt a = JStr s"
    by (cases "arg_prompt a") (simp_all add: validateCall_def typeof_def truthy_def js_def cu_def)
  show ?thesis
    using assms a s
    by (auto simp: validateCall_def Let_def stringOf_def split: if_splits sum.splits)
qed

lemma resolveOutputPath_Inr:
  assumes "resolveOutputPath e outputPath prompt fmt = Inr r"
  shows "\<not> truthy outputPath \<or> (\<exists>p. outputPath = JStr p \<and> isAbsolute e p)"
  using assms
  by (auto simp: resolveOutputPath_def split: if_splits jsval.splits)

lemma handle_events_cases:
  assumes "handleGenerateImage e args = (events, out)"
  shows "(events = [] \<and> (\<exists>err. validateCall e args = Inl err \<and> out = Inl err)) \<or>
         (\<exists>v pre out'. validateCall e args = Inr v \<and> tryBody e v = (pre, out') \<and>
            ((\<exists>err. out' = Inl err \<and> out = Inl err \<and> events = pre @ [EvCleanupAll]) \<or>
             (\<exists>r. out' = Inr r \<and> out = Inr r \<and> events = pre)))"
proof (cases "validateCall e args")
  case (Inl err)
  with assms show ?thesis by (auto simp: handleGenerateImage_def)
next
  case (Inr v)
  obtain pre out' where t: "tryBody e v = (pre, out')"
    by (cases "tryBody e v")
  with assms Inr show ?thesis
    by (cases out') (auto simp: handleGenerateImage_def)
qed

lemma typeof_string_iff: "typeof v = js ''string'' \<longleftrightarrow> (\<exists>s. v = JStr s)"
  by (cases v) (simp_all add: typeof_def js_def cu_def)

lemma prompt_rejected:
  assumes "\<not> (\<exists>s. arg_prompt a = JStr s \<and> trim s \<noteq> [])"
  shows "handleGenerateImage e (Some a)
           = ([], Inl (validationError (js ''Prompt is required and must be a non-empty string'')))"
  using assms
  by (cases "arg_prompt a")
     (auto simp: handleGenerateImage_def validateCall_def typeof_string_iff truthy_def stringOf_def)

section \<open>Number formatting\<close>



















section \<open>Cleanup on failure\<close>

text \<open>
  C1, as amended.  An error of the checks before the \<open>try\<close> block (prompt, output path,
  model, or a missing argument object) leaves \<open>handleGenerateImage\<close> at once: nothing has
  been done and \<open>cleanupAll\<close> is not called.  Once those checks have passed, every failure
  of a stage makes the handler call \<open>cleanupAll\<close> after the calls made so far and throw
  the same error: a failing remote submission, an empty list of URLs, an empty first URL, a
  failing download, a failing creation of the directory, a failing processing.  Conversely,
  whenever the handler throws after having done anything, \<open>cleanupAll\<close> was called exactly
  once, as the last action, and the error is the one of the stage that failed.
\<close>

theorem cleanup_on_pipeline_error:
  "(validateCall e args = Inl err \<longrightarrow> handleGenerateImage e args = ([], Inl err)) \<and>
   (validateCall e args = Inr v \<longrightarrow>
      (generateImage e (requestOf v) = Inl err \<longrightarrow>
         handleGenerateImage e args = ([EvGenerate (requestOf v), EvCleanupAll], Inl err)) \<and>
      (generateImage e (requestOf v) = Inr result \<longrightarrow>
         (imageUrls result = [] \<longrightarrow>
            handleGenerateImage e args
              = ([EvGenerate (requestOf v), EvCleanupAll],
                 Inl (processingError (js ''No images were generated'')))) \<and>
         (imageUrls result = [] # rest \<longrightarrow>
            handleGenerateImage e args
              = ([EvGenerate (requestOf v), EvCleanupAll],
                 Inl (processingError (js ''No valid image URL returned'')))) \<and>
         (imageUrls result = url # rest \<and> url \<noteq> [] \<longrightarrow>
            (downloadImage e url = Inl err \<longrightarrow>
               handleGenerateImage e args
                 = ([EvGenerate (requestOf v), EvDownload url, EvCleanupAll], Inl err)) \<and>
            (downloadImage e url = Inr imageBuffer \<longrightarrow>
               (mkdir e (dirname e (v_resolvedOutputPath v)) = Inl err \<longrightarrow>
                  handleGenerateImage e args
                    = ([EvGenerate (requestOf v), EvDownload url,
                        EvMkdir (dirname e (v_resolvedOutputPath v)), EvCleanupAll], Inl err)) \<and>
               (mkdir e (dirname e (v_resolvedOutputPath v)) = Inr u \<and>
                processImage e imageBuffer (optionsOf v) = Inl err \<longrightarrow>
                  handleGenerateImage e args
                    = ([EvGenerate (requestOf v), EvDownload url,
                        EvMkdir (dirname e (v_resolvedOutputPath v)),
                        EvProcess imageBuffer (optionsOf v), EvCleanupAll], Inl err)))))) \<and>
   (handleGenerateImage e args = (events, Inl err) \<longrightarrow>
      (events = [] \<and> validateCall e args = Inl err) \<or>
      (\<exists>pre. pre \<noteq> [] \<and> events = pre @ [EvCleanupAll] \<and> EvCleanupAll \<notin> set pre \<and>
             count_list events EvCleanupAll = 1 \<and> raisedBy e (last pre) err))"
proof (intro conjI impI)
  assume "validateCall e args = Inl err"
  then show "handleGenerateImage e args = ([], Inl err)"
    by (simp add: handleGenerateImage_def)
next
  assume "validateCall e args = Inr v" "generateImage e (requestOf v) = Inl err"
  then show "handleGenerateImage e args = ([EvGenerate (requestOf v), EvCleanupAll], Inl err)"
    using handle_rethrows [OF _ tryBody_generate_fails] by fastforce
next
  assume "validateCall e args = Inr v" "generateImage e (requestOf v) = Inr result"
    "imageUrls result = []"
  then show "handleGenerateImage e args
      = ([EvGenerate (requestOf v), EvCleanupAll],
         Inl (processingError (js ''No images were generated'')))"
    using handle_rethrows [OF _ tryBody_no_urls] by fastforce
next
  assume "validateCall e args = Inr v" "generateImage e (requestOf v) = Inr result"
    "imageUrls result = [] # rest"
  then show "handleGenerateImage e args
      = ([EvGenerate (requestOf v), EvCleanupAll],
         Inl (processingError (js ''No valid image URL returned'')))"
    using handle_rethrows [OF _ tryBody_empty_url] by fastforce
next
  assume "validateCall e args = Inr v" "generateImage e (requestOf v) = Inr result"
    "imageUrls result = url # rest \<and> url \<noteq> []" "downloadImage e url = Inl err"
  then show "handleGenerateImage e args
      = ([EvGenerate (requestOf v), EvDownload url, EvCleanupAll], Inl err)"
    using handle_rethrows [OF _ tryBody_download_fails] by fastforce
next
  assume "validateCall e args = Inr v" "generateImage e (requestOf v) = Inr result"
    "imageUrls result = url # rest \<and> url \<noteq> []" "downloadImage e url = Inr imageBuffer"
    "mkdir e (dirname e (v_resolvedOutputPath v)) = Inl err"
  then show "handleGenerateImage e args
      = ([EvGenerate (requestOf v), EvDownload url,
          EvMkdir (dirname e (v_resolvedOutputPath v)), EvCleanupAll], Inl err)"
    using handle_rethrows [OF _ tryBody_mkdir_fails] by fastforce
next
  assume "validateCall e args = Inr v" "generateImage e (requestOf v) = Inr result"
    "imageUrls result = url # rest \<and> url \<noteq> []" "downloadImage e url = Inr imageBuffer"
    "mkdir e (dirname e (v_resolvedOutputPath v)) = Inr u \<and>
     processImage e imageBuffer (optionsOf v) = Inl err"
  then show "handleGenerateImage e args
      = ([EvGenerate (requestOf v), EvDownload url,
          EvMkdir (dirname e (v_resolvedOutputPath v)),
          EvProcess imageBuffer (optionsOf v), EvCleanupAll], Inl err)"
    using handle_rethrows [OF _ tryBody_process_fails] by fastforce
next
  assume h: "handleGenerateImage e args = (events, Inl err)"
  show "(events = [] \<and> validateCall e args = Inl err) \<or>
      (\<exists>pre. pre \<noteq> [] \<and> events = pre @ [EvCleanupAll] \<and> EvCleanupAll \<notin> set pre \<and>
             count_list events EvCleanupAll = 1 \<and> raisedBy e (last pre) err)"
  proof (cases "validateCall e args")
    case (Inl err')
    with h show ?thesis
      by (simp add: handleGenerateImage_def)
  next
    case (Inr w)
    obtain pre out where t: "tryBody e w = (pre, out)"
      by (cases "tryBody e w")
    from h Inr t have out: "out = Inl err" and ev: "events = pre @ [EvCleanupAll]"
      by (auto simp: handleGenerateImage_def split: sum.splits)
    from t have pre: "pre \<noteq> []" "EvCleanupAll \<notin> set pre"
      using tryBody_events by blast+
    from t out have "raisedBy e (last pre) err"
      using tryBody_raisedBy by blast
    moreover from pre ev have "count_list events EvCleanupAll = 1"
      by (simp add: count_list_0_iff)
    ultimately show ?thesis
      using pre ev by blast
  qed
qed

text \<open>
  A failing download: one \<open>cleanupAll\<close>, after the two calls, and the client's error
  comes out unchanged.
\<close>

theorem cleanup_on_pipeline_error_witness:
  "validateCall failingDownload (Some (promptOnly ''a cat'')) = Inr catValidated \<and>
   generateImage failingDownload (requestOf catValidated)
     = Inr \<lparr>imageUrls = [stubUrl], processingTime = 1234\<rparr> \<and>
   stubUrl \<noteq> [] \<and>
   downloadImage failingDownload stubUrl = Inl (processingError (js ''Failed to download image'')) \<and>
   handleGenerateImage failingDownload (Some (promptOnly ''a cat''))
     = ([EvGenerate catRequest, EvDownload stubUrl, EvCleanupAll],
        Inl (processingError (js ''Failed to download image''))) \<and>
   count_list [EvGenerate catRequest, EvDownload stubUrl, EvCleanupAll] EvCleanupAll = 1 \<and>
   raisedBy failingDownload (EvDownload stubUrl) (processingError (js ''Failed to download image''))"
proof -
  let ?args = "Some (promptOnly ''a cat'')"
  let ?err = "processingError (js ''Failed to download image'')"
  have v: "validateCall failingDownload ?args = Inr catValidated"
    by (simp add: all_rules more_rules)
  have g: "generateImage failingDownload (requestOf catValidated)
             = Inr \<lparr>imageUrls = [stubUrl], processingTime = 1234\<rparr>"
    by (simp add: stub_rules more_rules)
  have u: "imageUrls \<lparr>imageUrls = [stubUrl], processingTime = 1234\<rparr> = stubUrl # [] \<and> stubUrl \<noteq> []"
    by (simp add: stubUrl_def js_def)
  have d: "downloadImage failingDownload stubUrl = Inl ?err"
    by (simp add: stub_rules more_rules)
  have r: "requestOf catValidated = catRequest"
    by (simp add: more_rules catRequest_def)
  note T = cleanup_on_pipeline_error [where e = failingDownload and args = ?args
      and v = catValidated and err = ?err
      and result = "\<lparr>imageUrls = [stubUrl], processingTime = 1234\<rparr>"
      and url = stubUrl and rest = "[]"
      and events = "[EvGenerate catRequest, EvDownload stubUrl, EvCleanupAll]"]
  from T v g u d have fwd: "handleGenerateImage failingDownload ?args
       = ([EvGenerate catRequest, EvDownload stubUrl, EvCleanupAll], Inl ?err)"
    unfolding r by blast
  with T have "\<exists>pre. pre \<noteq> [] \<and> [EvGenerate catRequest, EvDownload stubUrl, EvCleanupAll]
         = pre @ [EvCleanupAll] \<and> EvCleanupAll \<notin> set pre \<and>
       count_list [EvGenerate catRequest, EvDownload stubUrl, EvCleanupAll] EvCleanupAll = 1 \<and>
       raisedBy failingDownload (last pre) ?err"
    by blast
  then have bwd: "count_list [EvGenerate catRequest, EvDownload stubUrl, EvCleanupAll] EvCleanupAll = 1 \<and>
       raisedBy failingDownload (EvDownload stubUrl) ?err"
    by (auto simp: append_eq_Cons_conv)
  from v g u d fwd bwd show ?thesis
    by blast
qed

text \<open>
  C1 as worded asks for the cleanup on a validation failure too.  A blank prompt is
  rejected with no call to \<open>cleanupAll\<close>.
\<close>

theorem cleanup_skipped_on_validation_error:
  "handleGenerateImage stubEnv (Some (promptOnly ''   ''))
     = ([], Inl (validationError (js ''Prompt is required and must be a non-empty string'')))"
  by (simp add: all_rules)

section \<open>The response envelope\<close>

text \<open>
  C3, as amended.  For a call named \<open>generate_image\<close> the tool-call handler always returns
  a response: the success payload of \<open>handleGenerateImage\<close>, or an error payload with the
  error flag set and the text \<open>Error: \<close> followed by the message; an error that is not an
  \<open>McpError\<close> is reported as the processing error \<open>Unknown error occurred\<close>.  For any
  other tool name the handler does not return: it throws the validation error
  \<open>Unknown tool: \<close> followed by the name.
\<close>

theorem callTool_responses:
  "(name = js ''generate_image'' \<longrightarrow>
      (\<exists>events response. callToolHandler e name args = (events, Inr response) \<and>
         (handleGenerateImage e args = (events, Inr response) \<or>
          (\<exists>kind msg. handleGenerateImage e args = (events, Inl (McpError kind msg)) \<and>
             response = \<lparr>content = [TextBlock (js ''Error: '' @ msg)], isError = Some True\<rparr>) \<or>
          (\<exists>x. handleGenerateImage e args = (events, Inl (ForeignError x)) \<and>
             response = \<lparr>content = [TextBlock (js ''Error: Unknown error occurred'')],
                          isError = Some True\<rparr>)))) \<and>
   (name \<noteq> js ''generate_image'' \<longrightarrow>
      callToolHandler e name args = ([], Inl (validationError (js ''Unknown tool: '' @ name))))"
proof -
  obtain events out where h: "handleGenerateImage e args = (events, out)"
    by (cases "handleGenerateImage e args")
  have app: "js ''Error: '' @ js ''Unknown error occurred'' = js ''Error: Unknown error occurred''"
    by (simp add: js_def)
  show ?thesis
  proof (cases out)
    case (Inr response)
    with h show ?thesis by (simp add: callToolHandler_def)
  next
    case (Inl err)
    with h app show ?thesis
      by (cases err) (simp_all add: callToolHandler_def instanceofMcpError_def message_def processingError_def)
  qed
qed

text \<open>
  A system error of \<open>fs.mkdir\<close> is reported as \<open>Unknown error occurred\<close>; a call of
  another tool throws.
\<close>

theorem callTool_responses_witness:
  "callToolHandler failingMkdir (js ''generate_image'') (Some (promptOnly ''a cat''))
     = ([EvGenerate catRequest, EvDownload stubUrl, EvMkdir (js ''/srv/flux''), EvCleanupAll],
        Inr \<lparr>content = [TextBlock (js ''Error: Unknown error occurred'')], isError = Some True\<rparr>) \<and>
   js ''list_models'' \<noteq> js ''generate_image'' \<and>
   callToolHandler stubEnv (js ''list_models'') None
     = ([], Inl (validationError (js ''Unknown tool: list_models'')))"
  using callTool_responses [of "js ''generate_image''" failingMkdir "Some (promptOnly ''a cat'')"]
    callTool_responses [of "js ''list_models''" stubEnv None]
  by (simp add: all_rules more_rules)

text \<open>
  C3 as worded covers every tool name.  For a name other than \<open>generate_image\<close> the
  outcome of the handler is a thrown error, not a response.
\<close>

theorem unknown_tool_throws:
  "callToolHandler stubEnv (js ''list_models'') (Some (promptOnly ''a cat''))
     = ([], Inl (McpError Validation (js ''Unknown tool: list_models'')))"
  by (simp add: all_rules)

section \<open>Defaults\<close>

text \<open>
  C4.  Whatever the handler sends out carries the defaults for the fields the call leaves
  out: the request to the remote client has the configured default model, width 1024 and
  height 768; the options of the processor have the configured quality, width 1024 and
  height 768.
\<close>

theorem defaults_for_absent_fields:
  assumes "handleGenerateImage e (Some a) = (events, out)"
  shows "(EvGenerate request \<in> set events \<longrightarrow>
            (arg_model a = JUndefined \<longrightarrow> req_model request = JStr (defaultModel (getConfig e))) \<and>
            (arg_width a = JUndefined \<longrightarrow> req_width request = JNum 1024) \<and>
            (arg_height a = JUndefined \<longrightarrow> req_height request = JNum 768)) \<and>
         (EvProcess b options \<in> set events \<longrightarrow>
            (arg_quality a = JUndefined \<longrightarrow> opt_quality options = JNum (outputQuality (getConfig e))) \<and>
            (arg_width a = JUndefined \<longrightarrow> opt_width options = JNum 1024) \<and>
            (arg_height a = JUndefined \<longrightarrow> opt_height options = JNum 768))"
proof (cases "validateCall e (Some a)")
  case (Inl err)
  with assms show ?thesis
    by (auto simp: handleGenerateImage_def)
next
  case (Inr v)
  obtain pre out' where t: "tryBody e v = (pre, out')"
    by (cases "tryBody e v")
  from assms Inr t have sub: "set events \<subseteq> insert EvCleanupAll (set pre)"
    by (auto simp: handleGenerateImage_def split: sum.splits)
  from validateCall_Inr [OF Inr] have v:
    "v_model v = jsOr (arg_model a) (JStr (defaultModel (getConfig e)))"
    "v_width v = jsOr (arg_width a) (JNum 1024)"
    "v_height v = jsOr (arg_height a) (JNum 768)"
    "v_quality v = jsOr (arg_quality a) (JNum (outputQuality (getConfig e)))"
    by auto
  have g: "request = requestOf v" if "EvGenerate request \<in> set events"
    using that sub tryBody_generate [OF t] by auto
  have p: "options = optionsOf v" if "EvProcess b options \<in> set events"
    using that sub tryBody_process [OF t] by auto
  show ?thesis
    using g p v by (auto simp: requestOf_def optionsOf_def jsOr_def truthy_def)
qed

text \<open>
  A call with a prompt and nothing else.
\<close>

theorem defaults_for_absent_fields_witness:
  "handleGenerateImage stubEnv (Some (promptOnly ''a cat''))
     = ([EvGenerate catRequest, EvDownload stubUrl, EvMkdir (js ''/srv/flux''),
         EvProcess [82, 73, 70, 70] (catOptions (JNum 80))], Inr catSuccess) \<and>
   arg_model (promptOnly ''a cat'') = JUndefined \<and> arg_width (promptOnly ''a cat'') = JUndefined \<and>
   arg_height (promptOnly ''a cat'') = JUndefined \<and> arg_quality (promptOnly ''a cat'') = JUndefined \<and>
   req_model catRequest = JStr (js ''flux-1.1-pro'') \<and> req_width catRequest = JNum 1024 \<and>
   req_height catRequest = JNum 768 \<and> opt_quality (catOptions (JNum 80)) = JNum 80"
proof -
  have h: "handleGenerateImage stubEnv (Some (promptOnly ''a cat''))
     = ([EvGenerate catRequest, EvDownload stubUrl, EvMkdir (js ''/srv/flux''),
         EvProcess [82, 73, 70, 70] (catOptions (JNum 80))], Inr catSuccess)"
    by (simp add: all_rules)
  from defaults_for_absent_fields [OF h, of catRequest "[82, 73, 70, 70]" "catOptions (JNum 80)"]
  show ?thesis
    using h by (simp add: stub_rules)
qed

section \<open>Validation before use\<close>

text \<open>
  C5, as amended.  The prompt, the output path and the model are validated before use:
  whenever \<open>handleGenerateImage\<close> makes any remote or filesystem call, the call had an
  argument object, its prompt is a string that is not blank, its output path is falsy
  or an absolute path, and the model (given or default) is supported.
\<close>

theorem validated_before_io:
  assumes "handleGenerateImage e args = (events, out)" "events \<noteq> []"
  shows "\<exists>a. args = Some a \<and>
           (\<exists>s. arg_prompt a = JStr s \<and> trim s \<noteq> []) \<and>
           (\<not> truthy (arg_output_path a) \<or> (\<exists>p. arg_output_path a = JStr p \<and> isAbsolute e p)) \<and>
           isModelSupported e (jsOr (arg_model a) (JStr (defaultModel (getConfig e))))"
proof -
  from handle_events_cases [OF assms(1)] assms(2)
  obtain v where v: "validateCall e args = Inr v"
    by blast
  from validateCall_Inr [OF v] obtain a where a: "args = Some a"
    and p: "\<exists>s. arg_prompt a = JStr s \<and> trim s \<noteq> [] \<and> v_prompt v = trim s"
    and r: "resolveOutputPath e (arg_output_path a) (v_prompt v) (outputFormat (getConfig e)) = Inr (v_resolvedOutputPath v)"
    and m: "v_model v = jsOr (arg_model a) (JStr (defaultModel (getConfig e)))" "isModelSupported e (v_model v)"
    by blast
  from resolveOutputPath_Inr [OF r] a p m show ?thesis
    by auto
qed

text \<open>
  A call with an absolute output path.
\<close>

theorem validated_before_io_witness:
  "handleGenerateImage stubEnv (Some ((promptOnly ''a cat'')\<lparr>arg_output_path := JStr (js ''/tmp/cat.png'')\<rparr>))
     = ([EvGenerate catRequest, EvDownload stubUrl, EvMkdir (js ''/tmp''),
         EvProcess [82, 73, 70, 70] ((catOptions (JNum 80))\<lparr>opt_outputPath := js ''/tmp/cat.png''\<rparr>)],
        Inr \<lparr>content = [TextBlock (js
     ''Image generated successfully!\<newline>\<newline>Output: /tmp/cat.png\<newline>Model: flux-1.1-pro\<newline>Dimensions: 1024x768\<newline>File size: 195KB\<newline>Processing time: 1234ms\<newline>Cost: $0.003\<newline>Working Directory: /srv/flux'')],
     isError = None\<rparr>) \<and>
   trim (js ''a cat'') \<noteq> [] \<and> isAbsolute stubEnv (js ''/tmp/cat.png'') \<and>
   isModelSupported stubEnv (JStr (js ''flux-1.1-pro''))"
proof -
  let ?a = "(promptOnly ''a cat'')\<lparr>arg_output_path := JStr (js ''/tmp/cat.png'')\<rparr>"
  let ?ev = "[EvGenerate catRequest, EvDownload stubUrl, EvMkdir (js ''/tmp''),
         EvProcess [82, 73, 70, 70] ((catOptions (JNum 80))\<lparr>opt_outputPath := js ''/tmp/cat.png''\<rparr>)]"
  let ?r = "\<lparr>content = [TextBlock (js
     ''Image generated successfully!\<newline>\<newline>Output: /tmp/cat.png\<newline>Model: flux-1.1-pro\<newline>Dimensions: 1024x768\<newline>File size: 195KB\<newline>Processing time: 1234ms\<newline>Cost: $0.003\<newline>Working Directory: /srv/flux'')],
     isError = None\<rparr>"
  have h: "handleGenerateImage stubEnv (Some ?a) = (?ev, Inr ?r)"
    by (simp add: all_rules)
  have ne: "?ev \<noteq> []" by simp
  from validated_before_io [OF h ne] show ?thesis
    using h by (auto simp: stub_rules value_rules string_rules)
qed

text \<open>
  C5 as worded has a quality outside 1 to 100 rejected before any I/O.  The handler has no
  check on it: with quality 500 all four calls are made, the processor receives 500, and the
  call succeeds when the collaborators do.
\<close>

theorem quality_500_accepted:
  "handleGenerateImage stubEnv (Some ((promptOnly ''a cat'')\<lparr>arg_quality := JNum 500\<rparr>))
     = ([EvGenerate catRequest, EvDownload stubUrl, EvMkdir (js ''/srv/flux''),
         EvProcess [82, 73, 70, 70] (catOptions (JNum 500))], Inr catSuccess)"
  by (simp add: all_rules)

section \<open>The prompt check\<close>

text \<open>
  C6, at the input where the code departs from it.  A \<open>generate_image\<close> request without
  an \<open>arguments\<close> object has no prompt; reading \<open>args.prompt\<close> throws a \<open>TypeError\<close>
  before the prompt check, and the caller is told \<open>Unknown error occurred\<close> (a processing
  error) instead of the validation error.  No remote or filesystem call is made.  With an
  argument object the check works as C6 says (\<open>prompt_rejected\<close>).
\<close>

theorem missing_arguments_object:
  "handleGenerateImage e None = ([], Inl (ForeignError (js ''TypeError''))) \<and>
   callToolHandler e (js ''generate_image'') None
     = ([], Inr \<lparr>content = [TextBlock (js ''Error: Unknown error occurred'')], isError = Some True\<rparr>)"
proof -
  have "js ''Error: '' @ js ''Unknown error occurred'' = js ''Error: Unknown error occurred''"
    by (simp add: js_def)
  then show ?thesis
    by (simp add: callToolHandler_def handleGenerateImage_def validateCall_def
        instanceofMcpError_def message_def processingError_def)
qed

section \<open>The output path\<close>

text \<open>
  C7, as amended.  A call whose output path is a non-empty string that is not absolute
  fails with a validation error and makes no remote or filesystem call; a non-empty
  absolute path is returned by the resolver as it is.
\<close>

theorem relative_output_path_rejected:
  "(arg_output_path a = JStr p \<and> p \<noteq> [] \<and> \<not> isAbsolute e p \<longrightarrow>
      (\<exists>msg. handleGenerateImage e (Some a) = ([], Inl (validationError msg)))) \<and>
   (p \<noteq> [] \<and> isAbsolute e p \<longrightarrow> resolveOutputPath e (JStr p) prompt defaultFormat = Inr p)"
proof (intro conjI impI)
  assume h: "arg_output_path a = JStr p \<and> p \<noteq> [] \<and> \<not> isAbsolute e p"
  show "\<exists>msg. handleGenerateImage e (Some a) = ([], Inl (validationError msg))"
  proof (cases "\<exists>s. arg_prompt a = JStr s \<and> trim s \<noteq> []")
    case False
    from prompt_rejected [OF False] show ?thesis by blast
  next
    case True
    then obtain s where "arg_prompt a = JStr s" "trim s \<noteq> []" by blast
    with h have "handleGenerateImage e (Some a) = ([], Inl (validationError (js
      ''output_path must be an absolute path. Relative paths are not supported because the client and server may run in different environments.'')))"
      by (auto simp: handleGenerateImage_def validateCall_def resolveOutputPath_def
          typeof_string_iff truthy_def stringOf_def trim_def Let_def)
    then show ?thesis by blast
  qed
next
  assume "p \<noteq> [] \<and> isAbsolute e p"
  then show "resolveOutputPath e (JStr p) prompt defaultFormat = Inr p"
    by (simp add: resolveOutputPath_def truthy_def)
qed

text \<open>
  A relative and an absolute path.
\<close>

theorem relative_output_path_rejected_witness:
  "arg_output_path ((promptOnly ''a cat'')\<lparr>arg_output_path := JStr (js ''out/cat.png'')\<rparr>) = JStr (js ''out/cat.png'') \<and>
   js ''out/cat.png'' \<noteq> [] \<and> \<not> isAbsolute stubEnv (js ''out/cat.png'') \<and>
   handleGenerateImage stubEnv (Some ((promptOnly ''a cat'')\<lparr>arg_output_path := JStr (js ''out/cat.png'')\<rparr>))
     = ([], Inl (validationError (js ''output_path must be an absolute path. Relative paths are not supported because the client and server may run in different environments.''))) \<and>
   js ''/tmp/cat.png'' \<noteq> [] \<and> isAbsolute stubEnv (js ''/tmp/cat.png'') \<and>
   resolveOutputPath stubEnv (JStr (js ''/tmp/cat.png'')) (js ''a cat'') (js ''png'') = Inr (js ''/tmp/cat.png'')"
  using relative_output_path_rejected [of "(promptOnly ''a cat'')\<lparr>arg_output_path := JStr (js ''out/cat.png'')\<rparr>"
      "js ''out/cat.png''" stubEnv "js ''a cat''" "js ''png''"]
    relative_output_path_rejected [of "(promptOnly ''a cat'')\<lparr>arg_output_path := JStr (js ''/tmp/cat.png'')\<rparr>"
      "js ''/tmp/cat.png''" stubEnv "js ''a cat''" "js ''png''"]
  by (simp add: all_rules)

text \<open>
  C7 as worded covers every supplied path that is not absolute.  The empty string is not
  absolute, and the call goes through.
\<close>

theorem empty_output_path_accepted:
  "\<not> isAbsolute stubEnv [] \<and>
   handleGenerateImage stubEnv (Some ((promptOnly ''a cat'')\<lparr>arg_output_path := JStr []\<rparr>))
     = ([EvGenerate catRequest, EvDownload stubUrl, EvMkdir (js ''/srv/flux''),
         EvProcess [82, 73, 70, 70] (catOptions (JNum 80))], Inr catSuccess)"
  by (simp add: all_rules)

text \<open>
  C10.  An empty output path is falsy: the resolver treats it as absent and returns the
  generated filename joined to the working directory, and the whole call runs as if no path
  had been given.
\<close>

theorem empty_output_path_is_absent:
  "resolveOutputPath e (JStr []) prompt defaultFormat
     = Inr (pathJoin e (workingDirectory e) (generateFilename e prompt defaultFormat)) \<and>
   resolveOutputPath e (JStr []) prompt defaultFormat
     = resolveOutputPath e JUndefined prompt defaultFormat \<and>
   handleGenerateImage e (Some (a\<lparr>arg_output_path := JStr []\<rparr>))
     = handleGenerateImage e (Some (a\<lparr>arg_output_path := JUndefined\<rparr>))"
  by (simp add: resolveOutputPath_def truthy_def handleGenerateImage_def validateCall_def)

section \<open>No asset URL\<close>

text \<open>
  C8.  When the remote client was called and returned no URL, the only actions are that
  call and the cleanup (no download, no directory, no processing), and the response is the
  error payload with the text \<open>Error: No images were generated\<close>.
\<close>

theorem no_images_generated:
  assumes "callToolHandler e (js ''generate_image'') args = (events, out)"
    and "EvGenerate request \<in> set events"
    and "generateImage e request = Inr result"
    and "imageUrls result = []"
  shows "events = [EvGenerate request, EvCleanupAll] \<and>
         out = Inr \<lparr>content = [TextBlock (js ''Error: No images were generated'')],
                    isError = Some True\<rparr>"
proof -
  obtain evs out0 where h: "handleGenerateImage e args = (evs, out0)"
    by (cases "handleGenerateImage e args")
  with assms(1) have evs: "evs = events"
    by (auto simp: callToolHandler_def Let_def split: sum.splits)
  from handle_events_cases [OF h] assms(2) evs
  have "\<exists>v pre out'. validateCall e args = Inr v \<and> tryBody e v = (pre, out') \<and>
          set events \<subseteq> insert EvCleanupAll (set pre)"
    by auto
  then obtain v pre out' where v: "validateCall e args = Inr v"
    and t: "tryBody e v = (pre, out')"
    and sub: "set events \<subseteq> insert EvCleanupAll (set pre)"
    by blast
  from assms(2) sub have "EvGenerate request \<in> set pre" by auto
  from tryBody_generate [OF t this] have req: "request = requestOf v" .
  from tryBody_no_urls [of e v result] assms(3,4) req
  have "tryBody e v = ([EvGenerate request], Inl (processingError (js ''No images were generated'')))"
    by simp
  with v have "handleGenerateImage e args
      = ([EvGenerate request, EvCleanupAll], Inl (processingError (js ''No images were generated'')))"
    by (simp add: handleGenerateImage_def)
  moreover have "js ''Error: '' @ js ''No images were generated'' = js ''Error: No images were generated''"
    by (simp add: js_def)
  ultimately show ?thesis
    using assms(1)
    by (simp add: callToolHandler_def instanceofMcpError_def message_def processingError_def)
qed

text \<open>
  The stub client returning an empty list.
\<close>

theorem no_images_generated_witness:
  "callToolHandler noUrls (js ''generate_image'') (Some (promptOnly ''a cat''))
     = ([EvGenerate catRequest, EvCleanupAll],
        Inr \<lparr>content = [TextBlock (js ''Error: No images were generated'')], isError = Some True\<rparr>) \<and>
   generateImage noUrls catRequest = Inr \<lparr>imageUrls = [], processingTime = 900\<rparr>"
proof -
  let ?ev = "[EvGenerate catRequest, EvCleanupAll]"
  let ?out = "Inr \<lparr>content = [TextBlock (js ''Error: No images were generated'')], isError = Some True\<rparr>"
  have h: "callToolHandler noUrls (js ''generate_image'') (Some (promptOnly ''a cat'')) = (?ev, ?out)"
    by (simp add: all_rules more_rules)
  have m: "EvGenerate catRequest \<in> set ?ev" by simp
  have g: "generateImage noUrls catRequest = Inr \<lparr>imageUrls = [], processingTime = 900\<rparr>"
    by (simp add: stub_rules more_rules)
  have u: "imageUrls \<lparr>imageUrls = [], processingTime = 900\<rparr> = []" by simp
  from no_images_generated [OF h m g u] show ?thesis
    using h g by simp
qed

section \<open>The success response\<close>



end
